theory Spec2Isabelle
  imports Main
begin

section \<open>Exceptions\<close>

text \<open>
  Every \<^verbatim>\<open>raise\<close> of the routes and every exception that escapes a repository call is a
  value. \<open>HTTPException\<close> carries the status code and the detail the route passes;
  \<open>AttributeError\<close> is what Python raises when an attribute of \<^verbatim>\<open>None\<close> is read or
  written; \<open>IntegrityError\<close> is what the commit raises on a unique-constraint violation.
\<close>

datatype exc =
    HTTPException (status_code: nat) (detail: string)
  | AttributeError string
  | IntegrityError string

function str_nat :: "nat \<Rightarrow> string" where
  "str_nat n =
     (if n < 10 then [char_of (n + 48)]
      else str_nat (n div 10) @ [char_of (n mod 10 + 48)])"
  by pat_completeness auto
termination
  by (relation "measure (\<lambda>n. n)") auto

declare str_nat.simps [simp del]

text \<open>
  The text an f-string puts in place of \<^verbatim>\<open>{e}\<close>: \<^verbatim>\<open>str(e)\<close>. An HTTPException prints
  as status code, colon, detail; the other two print their message.
\<close>

fun str_exc :: "exc \<Rightarrow> string" where
  "str_exc (HTTPException c d) = str_nat c @ '': '' @ d"
| "str_exc (AttributeError m) = m"
| "str_exc (IntegrityError m) = m"

definition none_has_no_attribute :: "string \<Rightarrow> exc" where
  "none_has_no_attribute a =
     AttributeError (CHR 0x27 # ''NoneType'' @ CHR 0x27 # '' object has no attribute '' @
                     CHR 0x27 # a @ [CHR 0x27])"

section \<open>Signed tokens\<close>

text \<open>
  Modelled from the spec: \<^verbatim>\<open>src/services/auth.py\<close> (the object \<^verbatim>\<open>auth_service\<close>: password
  hashing, token issuance and token parsing) is not among the source files. A token string
  is represented by what it serialises, the secret that signed it and the claims payload
  (\<open>None\<close> when the payload does not decode); two token strings are equal exactly when
  these are.
\<close>

datatype purpose = access | refresh | email_confirm | password_reset

record claims =
  subject :: string
  issued_at :: nat
  expires_at :: nat
  purpose :: purpose

datatype token = Token (signed_with: string) (payload: "claims option")

datatype codec_error = InvalidSignature | Malformed | Expired | WrongPurpose

text \<open>
  Modelled from the spec: \<^verbatim>\<open>issue(claims, ttl, secret) -> token_string\<close>, with the clock
  reading \<open>now\<close> made an argument.
\<close>

definition issue :: "string \<Rightarrow> nat \<Rightarrow> nat \<Rightarrow> string \<Rightarrow> purpose \<Rightarrow> token" where
  "issue secret now ttl sub p =
     Token secret (Some \<lparr>subject = sub, issued_at = now, expires_at = now + ttl, purpose = p\<rparr>)"

text \<open>
  Modelled from the spec: the first three validation steps of \<^verbatim>\<open>parse\<close>, in the spec's
  order: signature, structural decode, expiry (a token parsed after its \<open>expires_at\<close> is
  expired).
\<close>

definition decode :: "string \<Rightarrow> nat \<Rightarrow> token \<Rightarrow> codec_error + claims" where
  "decode secret now t =
     (if signed_with t \<noteq> secret then Inl InvalidSignature
      else case payload t of
             None \<Rightarrow> Inl Malformed
           | Some c \<Rightarrow> if expires_at c < now then Inl Expired else Inr c)"

text \<open>
  Modelled from the spec: \<^verbatim>\<open>parse\<close> for a caller that expects a purpose; the purpose check
  is the fourth and last step.
\<close>

definition parse :: "string \<Rightarrow> nat \<Rightarrow> purpose \<Rightarrow> token \<Rightarrow> codec_error + claims" where
  "parse secret now expected t =
     (case decode secret now t of
        Inl e \<Rightarrow> Inl e
      | Inr c \<Rightarrow> if purpose c \<noteq> expected then Inl WrongPurpose else Inr c)"

section \<open>The auth service as the routes use it\<close>

text \<open>
  The routes call seven methods of \<^verbatim>\<open>auth_service\<close>. The record holds them, so that every
  route below takes the service as an argument and the theorems about the routes hold for
  any implementation of it. The clock reading of a call is the first argument of the token
  methods, and the salt drawn by the hasher is the first argument of
  \<open>get_password_hash\<close>. The methods that raise return the exception as \<open>Inl\<close>.
\<close>

record auth_service =
  get_password_hash :: "nat \<Rightarrow> string \<Rightarrow> string"
  verify_password :: "string \<Rightarrow> string \<Rightarrow> bool"
  create_access_token :: "nat \<Rightarrow> string \<Rightarrow> token"
  create_refresh_token :: "nat \<Rightarrow> string \<Rightarrow> token"
  create_email_token :: "nat \<Rightarrow> string \<Rightarrow> token"
  decode_refresh_token :: "nat \<Rightarrow> token \<Rightarrow> exc + string"
  get_email_from_token :: "nat \<Rightarrow> token \<Rightarrow> exc + string"

section \<open>database.models.User and the session\<close>

record User =
  user_id :: nat
  username :: string
  email :: string
  password :: string
  avatar :: "string option"
  created_at :: nat
  refresh_token :: "token option"
  confirmed :: bool

text \<open>
  The session is the rows of table \<^verbatim>\<open>users\<close> in insertion order. An ORM object is the row
  with its primary key: an assignment to one of its attributes followed by
  \<^verbatim>\<open>db.commit()\<close> updates the row that has this key.
\<close>

type_synonym Session = "User list"

record UserModel =
  um_username :: string
  um_email :: string
  um_password :: string

record OAuth2PasswordRequestForm =
  form_username :: string
  form_password :: string

record TokenModel =
  access_token :: token
  new_refresh_token :: token
  token_type :: string

record UserResponse =
  resp_user :: User
  resp_detail :: string

datatype background_task =
    SendVerificationEmail string string string
  | SendResetEmail string string string

section \<open>repository.users\<close>

definition get_user_by_email :: "string \<Rightarrow> Session \<Rightarrow> User option" where
  "get_user_by_email e db = find (\<lambda>u. email u = e) db"

definition next_id :: "Session \<Rightarrow> nat" where
  "next_id db = Suc (fold max (map user_id db) 0)"

text \<open>
  \<open>gravatar\<close> is the call \<^verbatim>\<open>Gravatar(body.email).get_image()\<close>, \<open>None\<close> when it raises
  (the exception is printed and the avatar stays \<^verbatim>\<open>None\<close>). The commit fails on the unique
  constraint of column \<^verbatim>\<open>email\<close>; column \<^verbatim>\<open>confirmed\<close> takes its default.
\<close>

definition create_user ::
  "(string \<Rightarrow> string option) \<Rightarrow> nat \<Rightarrow> UserModel \<Rightarrow> Session \<Rightarrow> exc + (User \<times> Session)" where
  "create_user gravatar now body db =
     (let new_user = \<lparr>user_id = next_id db, username = um_username body,
                      email = um_email body, password = um_password body,
                      avatar = gravatar (um_email body), created_at = now,
                      refresh_token = None, confirmed = False\<rparr>
      in if um_email body \<in> set (map email db)
         then Inl (IntegrityError ''UNIQUE constraint failed: users.email'')
         else Inr (new_user, db @ [new_user]))"

definition update_token :: "User \<Rightarrow> token option \<Rightarrow> Session \<Rightarrow> Session" where
  "update_token user tok db =
     map (\<lambda>u. if user_id u = user_id user then u\<lparr>refresh_token := tok\<rparr> else u) db"

definition repository_confirmed_email :: "string \<Rightarrow> Session \<Rightarrow> exc + Session" where
  "repository_confirmed_email e db =
     (case get_user_by_email e db of
        None \<Rightarrow> Inl (none_has_no_attribute ''confirmed'')
      | Some user \<Rightarrow>
          Inr (map (\<lambda>u. if user_id u = user_id user then u\<lparr>confirmed := True\<rparr> else u) db))"

definition update_password :: "User option \<Rightarrow> string \<Rightarrow> Session \<Rightarrow> exc + Session" where
  "update_password user hashed_password db =
     (case user of
        None \<Rightarrow> Inl (none_has_no_attribute ''password'')
      | Some usr \<Rightarrow>
          Inr (map (\<lambda>u. if user_id u = user_id usr then u\<lparr>password := hashed_password\<rparr> else u) db))"

section \<open>services.email\<close>

record MessageSchema =
  mail_subject :: string
  recipients :: "string list"
  body_host :: string
  body_username :: string
  body_token :: token
  template_name :: string

text \<open>
  Both senders build the token with the same call, \<^verbatim>\<open>create_email_token({"sub": email})\<close>,
  and hand the message to the mailer; a connection error of the mailer is printed and
  swallowed. The value is the message handed over.
\<close>

definition send_verification_email ::
  "auth_service \<Rightarrow> nat \<Rightarrow> string \<Rightarrow> string \<Rightarrow> string \<Rightarrow> MessageSchema" where
  "send_verification_email svc now e uname host =
     (let token_verification = create_email_token svc now e
      in \<lparr>mail_subject = ''Confirm your email '', recipients = [e], body_host = host,
          body_username = uname, body_token = token_verification,
          template_name = ''email_verify_template.html''\<rparr>)"

definition send_reset_email ::
  "auth_service \<Rightarrow> nat \<Rightarrow> string \<Rightarrow> string \<Rightarrow> string \<Rightarrow> MessageSchema" where
  "send_reset_email svc now e uname host =
     (let token_verification = create_email_token svc now e
      in \<lparr>mail_subject = ''Reset password '', recipients = [e], body_host = host,
          body_username = uname, body_token = token_verification,
          template_name = ''email_reset_template.html''\<rparr>)"

section \<open>routes.auth\<close>

text \<open>
  A route takes the service, the clock reading of the request (and the salt, where it
  hashes), the request data and the session; it returns the response or the exception
  raised, the session after the call, and the background tasks it queued.
\<close>

definition signup ::
  "auth_service \<Rightarrow> (string \<Rightarrow> string option) \<Rightarrow> nat \<Rightarrow> nat \<Rightarrow> string \<Rightarrow> UserModel \<Rightarrow> Session
   \<Rightarrow> (exc + UserResponse) \<times> Session \<times> background_task list" where
  "signup svc gravatar now salt base_url body db =
     (case get_user_by_email (um_email body) db of
        Some exist_user \<Rightarrow> (Inl (HTTPException 409 ''Account already exists''), db, [])
      | None \<Rightarrow>
          (let body' = body\<lparr>um_password := get_password_hash svc salt (um_password body)\<rparr>
           in case create_user gravatar now body' db of
                Inl e \<Rightarrow> (Inl e, db, [])
              | Inr (new_user, db') \<Rightarrow>
                  (Inr \<lparr>resp_user = new_user,
                        resp_detail =
                          ''User successfully created. Check your email for confirmation.''\<rparr>,
                   db',
                   [SendVerificationEmail (email new_user) (username new_user) base_url])))"

definition login ::
  "auth_service \<Rightarrow> nat \<Rightarrow> OAuth2PasswordRequestForm \<Rightarrow> Session
   \<Rightarrow> (exc + TokenModel) \<times> Session" where
  "login svc now body db =
     (case get_user_by_email (form_username body) db of
        None \<Rightarrow> (Inl (HTTPException 401 ''Invalid email''), db)
      | Some user \<Rightarrow>
          if \<not> confirmed user then (Inl (HTTPException 401 ''Email not confirmed''), db)
          else if \<not> verify_password svc (form_password body) (password user)
          then (Inl (HTTPException 401 ''Invalid password''), db)
          else
            (let a = create_access_token svc now (email user);
                 r = create_refresh_token svc now (email user)
             in (Inr \<lparr>access_token = a, new_refresh_token = r, token_type = ''bearer''\<rparr>,
                 update_token user (Some r) db)))"

definition refresh_token_route ::
  "auth_service \<Rightarrow> nat \<Rightarrow> token \<Rightarrow> Session \<Rightarrow> (exc + TokenModel) \<times> Session" where
  "refresh_token_route svc now tok db =
     (case decode_refresh_token svc now tok of
        Inl e \<Rightarrow> (Inl e, db)
      | Inr e \<Rightarrow>
          (case get_user_by_email e db of
             None \<Rightarrow> (Inl (none_has_no_attribute ''refresh_token''), db)
           | Some user \<Rightarrow>
               if refresh_token user \<noteq> Some tok
               then (Inl (HTTPException 401 ''Invalid refresh token''),
                     update_token user None db)
               else
                 (let a = create_access_token svc now e;
                      r = create_refresh_token svc now e
                  in (Inr \<lparr>access_token = a, new_refresh_token = r, token_type = ''bearer''\<rparr>,
                      update_token user (Some r) db))))"

definition confirmed_email ::
  "auth_service \<Rightarrow> nat \<Rightarrow> token \<Rightarrow> Session \<Rightarrow> (exc + string) \<times> Session" where
  "confirmed_email svc now tok db =
     (case get_email_from_token svc now tok of
        Inl e \<Rightarrow> (Inl e, db)
      | Inr e \<Rightarrow>
          (case get_user_by_email e db of
             None \<Rightarrow> (Inl (HTTPException 400 ''Verification error''), db)
           | Some user \<Rightarrow>
               if confirmed user then (Inr ''Your email is already confirmed'', db)
               else (case repository_confirmed_email e db of
                       Inl x \<Rightarrow> (Inl x, db)
                     | Inr db' \<Rightarrow> (Inr ''Email confirmed'', db'))))"

text \<open>
  \<^verbatim>\<open>user.confirmed\<close> is read before \<^verbatim>\<open>if user:\<close> is tested, so it is read of \<^verbatim>\<open>None\<close> when no
  row has the email.
\<close>

definition verify_by_email ::
  "string \<Rightarrow> string \<Rightarrow> Session \<Rightarrow> (exc + string) \<times> background_task list" where
  "verify_by_email base_url e db =
     (case get_user_by_email e db of
        None \<Rightarrow> (Inl (none_has_no_attribute ''confirmed''), [])
      | Some user \<Rightarrow>
          if confirmed user then (Inr ''Your email is already confirmed'', [])
          else (Inr ''Check your email for confirmation.'',
                [SendVerificationEmail (email user) (username user) base_url]))"

definition forgot_password ::
  "string \<Rightarrow> string \<Rightarrow> Session \<Rightarrow> string \<times> background_task list" where
  "forgot_password base_url e db =
     (case get_user_by_email e db of
        Some user \<Rightarrow> (''Check your email for reset password.'',
                      [SendResetEmail (email user) (username user) base_url])
      | None \<Rightarrow> (''Check your email for reset password.'', []))"

text \<open>
  The body of the \<^verbatim>\<open>try\<close> block of \<^verbatim>\<open>reset_password\<close>: parse the token, hash, load the user,
  store the hash. Any exception leaves the block at the statement that raises it.
\<close>

definition reset_password_try ::
  "auth_service \<Rightarrow> nat \<Rightarrow> nat \<Rightarrow> token \<Rightarrow> string \<Rightarrow> Session \<Rightarrow> exc + Session" where
  "reset_password_try svc now salt tok new_password db =
     (case get_email_from_token svc now tok of
        Inl e \<Rightarrow> Inl e
      | Inr e \<Rightarrow>
          (let hashed_password = get_password_hash svc salt new_password;
               user = get_user_by_email e db
           in update_password user hashed_password db))"

definition reset_password ::
  "auth_service \<Rightarrow> nat \<Rightarrow> nat \<Rightarrow> token \<Rightarrow> string \<Rightarrow> string \<Rightarrow> Session
   \<Rightarrow> (exc + string) \<times> Session" where
  "reset_password svc now salt tok new_password confirm_password db =
     (if new_password \<noteq> confirm_password
      then (Inl (HTTPException 422 ''Unprocessable Entity''), db)
      else case reset_password_try svc now salt tok new_password db of
             Inl e \<Rightarrow>
               (Inl (HTTPException 500
                       (''An unexpected error occurred. Report this message to support: ''
                        @ str_exc e)), db)
           | Inr db' \<Rightarrow> (Inr ''Password reset successfully'', db'))"

section \<open>A service built from the specified codec\<close>

text \<open>
  Modelled from the spec: \<^verbatim>\<open>src/conf/config.py\<close> is not among the source files; the
  settings the service reads are the signing secret and the three times to live, in
  seconds.
\<close>

record settings =
  secret_key :: string
  access_ttl :: nat
  refresh_ttl :: nat
  email_ttl :: nat

text \<open>
  Modelled from the spec: the credential hasher of \<^verbatim>\<open>src/services/auth.py\<close>. The digest
  function itself is cryptographic and not modelled; this stand-in keeps the contract that
  \<^verbatim>\<open>verify(p, hash(p))\<close> holds and that another plaintext does not verify, whatever the
  salt.
\<close>

definition hash_password :: "nat \<Rightarrow> string \<Rightarrow> string" where
  "hash_password salt plaintext = replicate salt CHR ''$'' @ CHR ''|'' # plaintext"

definition verify_digest :: "string \<Rightarrow> string \<Rightarrow> bool" where
  "verify_digest plaintext digest =
     (dropWhile (\<lambda>c. c = CHR ''$'') digest = CHR ''|'' # plaintext)"

text \<open>
  Modelled from the spec: the object \<^verbatim>\<open>auth_service\<close> of \<^verbatim>\<open>src/services/auth.py\<close>, built on
  \<open>issue\<close>, \<open>decode\<close> and \<open>parse\<close>. The callers fix what the spec leaves open:
  \<^verbatim>\<open>create_email_token\<close> is the single issuing call of both mail senders, so it has a single
  purpose tag; \<^verbatim>\<open>get_email_from_token\<close> is the single parsing call of confirm-email and
  reset-password and is given no expected purpose, and the tests of the routes present
  the stored refresh token to both and expect success, so it checks signature, structure
  and expiry. The details of the exceptions are the ones the tests of the routes expect.
\<close>

definition spec_auth_service :: "settings \<Rightarrow> auth_service" where
  "spec_auth_service cfg =
     \<lparr>get_password_hash = hash_password,
      verify_password = verify_digest,
      create_access_token = (\<lambda>now sub. issue (secret_key cfg) now (access_ttl cfg) sub access),
      create_refresh_token =
        (\<lambda>now sub. issue (secret_key cfg) now (refresh_ttl cfg) sub refresh),
      create_email_token =
        (\<lambda>now sub. issue (secret_key cfg) now (email_ttl cfg) sub email_confirm),
      decode_refresh_token =
        (\<lambda>now t. case parse (secret_key cfg) now refresh t of
                    Inl err \<Rightarrow> Inl (HTTPException 401 ''Could not validate credentials'')
                  | Inr c \<Rightarrow> Inr (subject c)),
      get_email_from_token =
        (\<lambda>now t. case decode (secret_key cfg) now t of
                    Inl err \<Rightarrow> Inl (HTTPException 422 ''Invalid token for email verification'')
                  | Inr c \<Rightarrow> Inr (subject c))\<rparr>"

section \<open>Fixtures\<close>

text \<open>
  The user of \<^verbatim>\<open>tests/conftest.py\<close>, a service with a fifteen-minute access token, a
  seven-day refresh token and a two-hour mail token, and the session after this user has
  signed up at time 0 and confirmed.
\<close>

definition test_settings :: settings where
  "test_settings =
     \<lparr>secret_key = ''secret_key'', access_ttl = 900, refresh_ttl = 604800, email_ttl = 7200\<rparr>"

definition test_service :: auth_service where
  "test_service = spec_auth_service test_settings"

definition deadpool :: User where
  "deadpool =
     \<lparr>user_id = 1, username = ''deadpool'', email = ''deadpool@example.com'',
      password = hash_password 2 ''123456789'', avatar = None, created_at = 0,
      refresh_token = None, confirmed = True\<rparr>"

definition deadpool_form :: OAuth2PasswordRequestForm where
  "deadpool_form = \<lparr>form_username = ''deadpool@example.com'', form_password = ''123456789''\<rparr>"

definition deadpool_refresh_token :: token where
  "deadpool_refresh_token = issue ''secret_key'' 100 604800 ''deadpool@example.com'' refresh"

definition deadpool_access_token :: token where
  "deadpool_access_token = issue ''secret_key'' 100 900 ''deadpool@example.com'' access"

definition deadpool_mail_token :: token where
  "deadpool_mail_token = issue ''secret_key'' 100 7200 ''deadpool@example.com'' email_confirm"

section \<open>Lemmas on the session\<close>

lemma find_map_pres:
  "(\<And>x. P (g x) = P x) \<Longrightarrow> find P (map g xs) = map_option g (find P xs)"
  by (induction xs) simp_all

lemma get_user_by_email_update_token:
  "get_user_by_email e (update_token user tok db) =
     map_option (\<lambda>u. if user_id u = user_id user then u\<lparr>refresh_token := tok\<rparr> else u)
       (get_user_by_email e db)"
  unfolding get_user_by_email_def update_token_def
  by (rule find_map_pres) simp

lemma test_service_simps:
  "decode_refresh_token test_service now t =
     (case parse ''secret_key'' now refresh t of
        Inl err \<Rightarrow> Inl (HTTPException 401 ''Could not validate credentials'')
      | Inr c \<Rightarrow> Inr (subject c))"
  "get_email_from_token test_service now t =
     (case decode ''secret_key'' now t of
        Inl err \<Rightarrow> Inl (HTTPException 422 ''Invalid token for email verification'')
      | Inr c \<Rightarrow> Inr (subject c))"
  "create_access_token test_service now sub = issue ''secret_key'' now 900 sub access"
  "create_refresh_token test_service now sub = issue ''secret_key'' now 604800 sub refresh"
  "create_email_token test_service now sub = issue ''secret_key'' now 7200 sub email_confirm"
  "get_password_hash test_service = hash_password"
  "verify_password test_service = verify_digest"
  by (simp_all add: test_service_def spec_auth_service_def test_settings_def)

section \<open>Lemmas on the fixtures and the routes\<close>

lemma get_user_by_email_map:
  "(\<And>x. email (g x) = email x) \<Longrightarrow>
     get_user_by_email e (map g db) = map_option g (get_user_by_email e db)"
  unfolding get_user_by_email_def by (rule find_map_pres) simp

lemma get_user_by_email_None: "get_user_by_email e db = None \<longleftrightarrow> e \<notin> set (map email db)"
  unfolding get_user_by_email_def by (auto simp: find_None_iff)

lemma get_user_by_email_snoc:
  "get_user_by_email e (db @ [u]) =
     (case get_user_by_email e db of Some x \<Rightarrow> Some x
      | None \<Rightarrow> if email u = e then Some u else None)"
  unfolding get_user_by_email_def by (induction db) simp_all

lemma deadpool_lookup:
  "get_user_by_email ''deadpool@example.com'' [deadpool] = Some deadpool"
  "get_user_by_email ''deadpool@example.com'' [deadpool\<lparr>confirmed := False\<rparr>]
     = Some (deadpool\<lparr>confirmed := False\<rparr>)"
  "get_user_by_email ''deadpool@example.com'' [] = None"
  "get_user_by_email ''email'' [deadpool] = None"
  "get_user_by_email ''nobody@example.com'' [deadpool] = None"
  by (simp_all add: get_user_by_email_def deadpool_def)

lemma deadpool_password:
  "verify_digest ''123456789'' (password deadpool)"
  "\<not> verify_digest ''password'' (password deadpool)"
  by (simp_all add: verify_digest_def deadpool_def hash_password_def numeral_2_eq_2)

lemma mail_token_parses:
  "get_email_from_token test_service 200 deadpool_mail_token = Inr ''deadpool@example.com''"
  "get_email_from_token test_service 300 deadpool_mail_token = Inr ''deadpool@example.com''"
  "get_email_from_token test_service 200 (Token ''invalid_token'' None)
     = Inl (HTTPException 422 ''Invalid token for email verification'')"
  by (simp_all add: test_service_simps decode_def deadpool_mail_token_def issue_def)

lemma deadpool_issue_email:
  "create_access_token test_service 100 (email deadpool) = deadpool_access_token"
  "create_refresh_token test_service 100 (email deadpool) = deadpool_refresh_token"
  by (simp_all add: test_service_simps(3,4) deadpool_access_token_def
        deadpool_refresh_token_def deadpool_def)

lemma deadpool_login:
  "login test_service 100 deadpool_form [deadpool]
     = (Inr \<lparr>access_token = deadpool_access_token, new_refresh_token = deadpool_refresh_token,
             token_type = ''bearer''\<rparr>,
        [deadpool\<lparr>refresh_token := Some deadpool_refresh_token\<rparr>])"
  by (simp add: login_def Let_def deadpool_form_def deadpool_lookup deadpool_password
        test_service_simps(7) update_token_def deadpool_issue_email)
    (simp add: deadpool_def)

lemma deadpool_decode_refresh:
  "decode_refresh_token test_service 100 deadpool_refresh_token = Inr ''deadpool@example.com''"
  "decode_refresh_token test_service 150 deadpool_refresh_token = Inr ''deadpool@example.com''"
  "decode_refresh_token test_service 160 deadpool_refresh_token = Inr ''deadpool@example.com''"
  by (simp_all add: test_service_simps(1) parse_def decode_def deadpool_refresh_token_def
        issue_def)

lemma deadpool_stored_lookup:
  "get_user_by_email ''deadpool@example.com'' [deadpool\<lparr>refresh_token := Some t\<rparr>]
     = Some (deadpool\<lparr>refresh_token := Some t\<rparr>)"
  by (simp add: get_user_by_email_def deadpool_def)

lemma deadpool_issue:
  "create_access_token test_service 100 ''deadpool@example.com'' = deadpool_access_token"
  "create_refresh_token test_service 100 ''deadpool@example.com'' = deadpool_refresh_token"
  by (simp_all add: test_service_simps(3,4) deadpool_access_token_def
        deadpool_refresh_token_def)

lemma deadpool_refresh:
  "refresh_token_route test_service 100 deadpool_refresh_token
     [deadpool\<lparr>refresh_token := Some deadpool_refresh_token\<rparr>]
     = (Inr \<lparr>access_token = deadpool_access_token, new_refresh_token = deadpool_refresh_token,
             token_type = ''bearer''\<rparr>,
        [deadpool\<lparr>refresh_token := Some deadpool_refresh_token\<rparr>])"
  "refresh_token_route test_service 150 deadpool_refresh_token
     [deadpool\<lparr>refresh_token := Some deadpool_refresh_token\<rparr>]
     = (Inr \<lparr>access_token = issue ''secret_key'' 150 900 ''deadpool@example.com'' access,
             new_refresh_token = issue ''secret_key'' 150 604800 ''deadpool@example.com'' refresh,
             token_type = ''bearer''\<rparr>,
        [deadpool\<lparr>refresh_token :=
                    Some (issue ''secret_key'' 150 604800 ''deadpool@example.com'' refresh)\<rparr>])"
  by (simp add: refresh_token_route_def deadpool_decode_refresh deadpool_stored_lookup
        Let_def update_token_def deadpool_issue)
    (simp add: refresh_token_route_def deadpool_decode_refresh deadpool_stored_lookup
        Let_def update_token_def test_service_simps(3,4))

lemma login_stores:
  assumes "login svc now body db = (Inr tm, db1)"
  shows "\<exists>u. get_user_by_email (form_username body) db1 = Some u
           \<and> refresh_token u = Some (new_refresh_token tm)"
proof (cases "get_user_by_email (form_username body) db")
  case None
  with assms show ?thesis by (simp add: login_def)
next
  case (Some user)
  with assms have "tm = \<lparr>access_token = create_access_token svc now (email user),
                        new_refresh_token = create_refresh_token svc now (email user),
                        token_type = ''bearer''\<rparr>"
    and "db1 = update_token user (Some (create_refresh_token svc now (email user))) db"
    by (auto simp: login_def Let_def split: if_splits)
  with Some show ?thesis by (simp add: get_user_by_email_update_token)
qed

lemma refresh_stores:
  assumes "decode_refresh_token svc now tok = Inr e"
    and "refresh_token_route svc now tok db = (Inr tm, db1)"
  shows "\<exists>u. get_user_by_email e db1 = Some u \<and> refresh_token u = Some (new_refresh_token tm)"
proof (cases "get_user_by_email e db")
  case None
  with assms show ?thesis by (simp add: refresh_token_route_def none_has_no_attribute_def)
next
  case (Some user)
  with assms have "tm = \<lparr>access_token = create_access_token svc now e,
                        new_refresh_token = create_refresh_token svc now e,
                        token_type = ''bearer''\<rparr>"
    and "db1 = update_token user (Some (create_refresh_token svc now e)) db"
    by (auto simp: refresh_token_route_def Let_def split: if_splits)
  with Some show ?thesis by (simp add: get_user_by_email_update_token)
qed

lemma stale_token_rejected:
  assumes "get_user_by_email e db = Some u" and "refresh_token u = Some r" and "t \<noteq> r"
    and "decode_refresh_token svc now t = Inr e"
  shows "refresh_token_route svc now t db
           = (Inl (HTTPException 401 ''Invalid refresh token''), update_token u None db)"
  using assms by (simp add: refresh_token_route_def)

section \<open>Refresh-token rotation\<close>

text \<open>
  Claim C1, as amended. After a successful login, and after a successful refresh, the
  refresh token stored for the user is exactly the one the call returned, and every token
  that differs from it and that the service decodes to the user's email is rejected by the
  refresh route with HTTP 401 "Invalid refresh token" (the spec's InvalidRefreshToken),
  which also clears the stored token. A token of an earlier login or refresh is rejected,
  then, when it differs from the newly issued one; nothing in the routes makes it differ.
\<close>

theorem refresh_rotation:
  assumes "(e = form_username body \<and> login svc now body db = (Inr tm, db1))
         \<or> (decode_refresh_token svc now tok = Inr e
             \<and> refresh_token_route svc now tok db = (Inr tm, db1))"
  shows "\<exists>u. get_user_by_email e db1 = Some u
            \<and> refresh_token u = Some (new_refresh_token tm)
            \<and> (\<forall>t now'. t \<noteq> new_refresh_token tm \<and> decode_refresh_token svc now' t = Inr e \<longrightarrow>
                  refresh_token_route svc now' t db1
                    = (Inl (HTTPException 401 ''Invalid refresh token''),
                       update_token u None db1))"
proof -
  from assms obtain u where u: "get_user_by_email e db1 = Some u"
    "refresh_token u = Some (new_refresh_token tm)"
    using login_stores refresh_stores by blast
  then show ?thesis using stale_token_rejected by blast
qed

theorem refresh_rotation_witness:
  "(''deadpool@example.com'' = form_username deadpool_form
    \<and> login test_service 100 deadpool_form [deadpool]
        = (Inr \<lparr>access_token = deadpool_access_token,
                new_refresh_token = deadpool_refresh_token, token_type = ''bearer''\<rparr>,
           [deadpool\<lparr>refresh_token := Some deadpool_refresh_token\<rparr>]))
   \<and> (decode_refresh_token test_service 150 deadpool_refresh_token = Inr ''deadpool@example.com''
      \<and> refresh_token_route test_service 150 deadpool_refresh_token
           [deadpool\<lparr>refresh_token := Some deadpool_refresh_token\<rparr>]
          = (Inr \<lparr>access_token = issue ''secret_key'' 150 900 ''deadpool@example.com'' access,
                  new_refresh_token =
                    issue ''secret_key'' 150 604800 ''deadpool@example.com'' refresh,
                  token_type = ''bearer''\<rparr>,
             [deadpool\<lparr>refresh_token :=
                         Some (issue ''secret_key'' 150 604800 ''deadpool@example.com'' refresh)\<rparr>]))
   \<and> deadpool_refresh_token \<noteq> issue ''secret_key'' 150 604800 ''deadpool@example.com'' refresh
   \<and> decode_refresh_token test_service 160 deadpool_refresh_token = Inr ''deadpool@example.com''
   \<and> fst (refresh_token_route test_service 160 deadpool_refresh_token
             [deadpool\<lparr>refresh_token :=
                         Some (issue ''secret_key'' 150 604800 ''deadpool@example.com'' refresh)\<rparr>])
       = Inl (HTTPException 401 ''Invalid refresh token'')
   \<and> fst (refresh_token_route test_service 160 deadpool_refresh_token
             [deadpool\<lparr>refresh_token := Some deadpool_refresh_token\<rparr>])
       \<noteq> Inl (HTTPException 401 ''Invalid refresh token'')"
proof -
  let ?new = "issue ''secret_key'' 150 604800 ''deadpool@example.com'' refresh"
  let ?tm = "\<lparr>access_token = issue ''secret_key'' 150 900 ''deadpool@example.com'' access,
              new_refresh_token = ?new, token_type = ''bearer''\<rparr>"
  have f: "''deadpool@example.com'' = form_username deadpool_form"
    by (simp add: deadpool_form_def)
  have ne: "deadpool_refresh_token \<noteq> ?new"
    by (simp add: deadpool_refresh_token_def issue_def)
  have h: "decode_refresh_token test_service 150 deadpool_refresh_token
             = Inr ''deadpool@example.com''
           \<and> refresh_token_route test_service 150 deadpool_refresh_token
               [deadpool\<lparr>refresh_token := Some deadpool_refresh_token\<rparr>]
             = (Inr ?tm, [deadpool\<lparr>refresh_token := Some ?new\<rparr>])"
    by (simp only: deadpool_decode_refresh deadpool_refresh simp_thms)
  from refresh_rotation [OF disjI2 [OF h]]
  obtain u where u: "\<forall>t now'. t \<noteq> new_refresh_token ?tm
                        \<and> decode_refresh_token test_service now' t = Inr ''deadpool@example.com''
                     \<longrightarrow> refresh_token_route test_service now' t
                           [deadpool\<lparr>refresh_token := Some ?new\<rparr>]
                         = (Inl (HTTPException 401 ''Invalid refresh token''),
                            update_token u None [deadpool\<lparr>refresh_token := Some ?new\<rparr>])"
    by blast
  have "new_refresh_token ?tm = ?new" by simp
  with u ne deadpool_decode_refresh(3)
  have r: "fst (refresh_token_route test_service 160 deadpool_refresh_token
             [deadpool\<lparr>refresh_token := Some ?new\<rparr>])
       = Inl (HTTPException 401 ''Invalid refresh token'')"
    by (metis fst_conv)
  have s: "fst (refresh_token_route test_service 160 deadpool_refresh_token
             [deadpool\<lparr>refresh_token := Some deadpool_refresh_token\<rparr>])
       \<noteq> Inl (HTTPException 401 ''Invalid refresh token'')"
    by (simp add: refresh_token_route_def deadpool_decode_refresh deadpool_stored_lookup Let_def)
  from f deadpool_login h ne deadpool_decode_refresh(3) r s show ?thesis by blast
qed

text \<open>
  Claim C1 as stated fails when the service issues the same token string twice. With the
  service built from the specified codec, a token is determined by subject, purpose and
  clock reading: the login at time 100 returns a refresh token, the refresh at the same
  clock reading returns and stores the very same token, and presenting the login's token a
  second time (here at time 150) succeeds again.
\<close>

theorem refresh_rotation_counterexample:
  "login test_service 100 deadpool_form [deadpool]
     = (Inr \<lparr>access_token = deadpool_access_token, new_refresh_token = deadpool_refresh_token,
             token_type = ''bearer''\<rparr>,
        [deadpool\<lparr>refresh_token := Some deadpool_refresh_token\<rparr>])
   \<and> refresh_token_route test_service 100 deadpool_refresh_token
        [deadpool\<lparr>refresh_token := Some deadpool_refresh_token\<rparr>]
       = (Inr \<lparr>access_token = deadpool_access_token,
               new_refresh_token = deadpool_refresh_token, token_type = ''bearer''\<rparr>,
          [deadpool\<lparr>refresh_token := Some deadpool_refresh_token\<rparr>])
   \<and> refresh_token_route test_service 150 deadpool_refresh_token
        [deadpool\<lparr>refresh_token := Some deadpool_refresh_token\<rparr>]
       = (Inr \<lparr>access_token = issue ''secret_key'' 150 900 ''deadpool@example.com'' access,
               new_refresh_token =
                 issue ''secret_key'' 150 604800 ''deadpool@example.com'' refresh,
               token_type = ''bearer''\<rparr>,
          [deadpool\<lparr>refresh_token :=
                      Some (issue ''secret_key'' 150 604800 ''deadpool@example.com'' refresh)\<rparr>])"
  by (simp only: deadpool_login deadpool_refresh simp_thms)

section \<open>Refresh with a token that is not the stored one\<close>

text \<open>
  Claim C2. Whenever the service decodes the presented token to the email of a user and
  the refresh token stored for this user is not the presented one, the refresh route
  raises HTTP 401 "Invalid refresh token" (the spec's InvalidRefreshToken) and the session
  it leaves holds this user with the stored refresh token set to \<open>None\<close>.
\<close>

theorem refresh_mismatch_clears_token:
  assumes "decode_refresh_token svc now tok = Inr e"
    and "get_user_by_email e db = Some user"
    and "refresh_token user \<noteq> Some tok"
  shows "refresh_token_route svc now tok db =
           (Inl (HTTPException 401 ''Invalid refresh token''), update_token user None db)
         \<and> get_user_by_email e (update_token user None db)
             = Some (user\<lparr>refresh_token := None\<rparr>)"
  using assms by (simp add: refresh_token_route_def get_user_by_email_update_token)

theorem refresh_mismatch_clears_token_witness:
  "decode_refresh_token test_service 200 deadpool_refresh_token = Inr ''deadpool@example.com''
   \<and> get_user_by_email ''deadpool@example.com'' [deadpool] = Some deadpool
   \<and> refresh_token deadpool \<noteq> Some deadpool_refresh_token
   \<and> refresh_token_route test_service 200 deadpool_refresh_token [deadpool] =
        (Inl (HTTPException 401 ''Invalid refresh token''), update_token deadpool None [deadpool])
   \<and> get_user_by_email ''deadpool@example.com'' (update_token deadpool None [deadpool])
        = Some (deadpool\<lparr>refresh_token := None\<rparr>)"
proof -
  have a: "decode_refresh_token test_service 200 deadpool_refresh_token
             = Inr ''deadpool@example.com''"
    by (simp add: test_service_simps parse_def decode_def deadpool_refresh_token_def issue_def)
  have b: "get_user_by_email ''deadpool@example.com'' [deadpool] = Some deadpool"
    by (simp add: get_user_by_email_def deadpool_def)
  have c: "refresh_token deadpool \<noteq> Some deadpool_refresh_token"
    by (simp add: deadpool_def)
  from refresh_mismatch_clears_token [OF a b c] a b c show ?thesis by blast
qed

section \<open>Purposes of tokens\<close>

text \<open>
  Claim C3, as amended. In the specified codec, a token issued with purpose \<open>X\<close> and
  parsed with the same secret expecting another purpose \<open>Y\<close> never parses and is never
  Malformed: it fails with WrongPurpose until it expires and with Expired afterwards, the
  expiry check being the earlier step. The routes do not separate the purposes of mail
  tokens: the confirmation mail and the reset mail carry the token of one and the same
  issuing call, and reset-password (with matching password fields) fails on a token
  exactly when confirm-email fails on it.
\<close>

theorem purpose_separation:
  "(X \<noteq> Y \<longrightarrow>
      parse secret now Y (issue secret t0 ttl sub X)
        = (if t0 + ttl < now then Inl Expired else Inl WrongPurpose))
   \<and> body_token (send_verification_email svc now e uname host)
       = body_token (send_reset_email svc now e uname host)
   \<and> isl (fst (reset_password svc now salt tok p p db))
       = isl (fst (confirmed_email svc now tok db))"
  by (auto simp: parse_def decode_def issue_def send_verification_email_def
        send_reset_email_def reset_password_def reset_password_try_def confirmed_email_def
        update_password_def repository_confirmed_email_def Let_def
        split: sum.splits option.splits)

theorem purpose_separation_witness:
  "refresh \<noteq> access
   \<and> parse ''secret_key'' 200 access
        (issue ''secret_key'' 100 604800 ''deadpool@example.com'' refresh) = Inl WrongPurpose
   \<and> parse ''secret_key'' 700000 access
        (issue ''secret_key'' 100 604800 ''deadpool@example.com'' refresh) = Inl Expired
   \<and> body_token (send_verification_email test_service 100 ''deadpool@example.com'' ''deadpool''
                   ''http://testserver/'')
       = body_token (send_reset_email test_service 100 ''deadpool@example.com'' ''deadpool''
                       ''http://testserver/'')
   \<and> isl (fst (reset_password test_service 200 3 deadpool_mail_token ''test_pass'' ''test_pass''
                  [deadpool]))
       = isl (fst (confirmed_email test_service 200 deadpool_mail_token [deadpool]))"
proof -
  have ne: "refresh \<noteq> access" by simp
  note t = purpose_separation [where X = refresh and Y = access and secret = "''secret_key''"
      and ?t0.0 = 100 and ttl = 604800 and sub = "''deadpool@example.com''"
      and svc = test_service and e = "''deadpool@example.com''" and uname = "''deadpool''"
      and host = "''http://testserver/''" and salt = 3 and tok = deadpool_mail_token
      and p = "''test_pass''" and db = "[deadpool]"]
  from t [where now = 200] t [where now = 700000] t [where now = 100] ne show ?thesis
    by simp
qed

text \<open>
  Claim C3 as stated fails: the token of the confirmation mail is accepted by
  reset-password, the token of the reset mail is accepted by confirm-email, and a token
  issued for refresh and parsed as an access token after its expiry fails with Expired,
  not with WrongPurpose.
\<close>

theorem purpose_separation_counterexample:
  "body_token (send_verification_email test_service 100 ''deadpool@example.com'' ''deadpool''
                 ''http://testserver/'') = deadpool_mail_token
   \<and> reset_password test_service 200 3 deadpool_mail_token ''test_pass'' ''test_pass'' [deadpool]
       = (Inr ''Password reset successfully'',
          [deadpool\<lparr>password := hash_password 3 ''test_pass''\<rparr>])
   \<and> body_token (send_reset_email test_service 100 ''deadpool@example.com'' ''deadpool''
                   ''http://testserver/'') = deadpool_mail_token
   \<and> confirmed_email test_service 200 deadpool_mail_token [deadpool\<lparr>confirmed := False\<rparr>]
       = (Inr ''Email confirmed'', [deadpool])
   \<and> parse ''secret_key'' 700000 access deadpool_refresh_token = Inl Expired"
proof -
  have a: "body_token (send_verification_email test_service 100 ''deadpool@example.com''
                 ''deadpool'' ''http://testserver/'') = deadpool_mail_token"
    "body_token (send_reset_email test_service 100 ''deadpool@example.com'' ''deadpool''
                   ''http://testserver/'') = deadpool_mail_token"
    by (simp_all add: send_verification_email_def send_reset_email_def test_service_simps(5)
          deadpool_mail_token_def)
  have b: "reset_password test_service 200 3 deadpool_mail_token ''test_pass'' ''test_pass''
             [deadpool]
       = (Inr ''Password reset successfully'',
          [deadpool\<lparr>password := hash_password 3 ''test_pass''\<rparr>])"
    by (simp add: reset_password_def reset_password_try_def mail_token_parses deadpool_lookup
          update_password_def test_service_simps(6))
  have c: "confirmed_email test_service 200 deadpool_mail_token [deadpool\<lparr>confirmed := False\<rparr>]
       = (Inr ''Email confirmed'', [deadpool])"
    by (simp add: confirmed_email_def mail_token_parses deadpool_lookup
          repository_confirmed_email_def)
      (simp add: deadpool_def)
  have d: "parse ''secret_key'' 700000 access deadpool_refresh_token = Inl Expired"
    by (simp add: parse_def decode_def deadpool_refresh_token_def issue_def)
  from a b c d show ?thesis by simp
qed

section \<open>Login\<close>

text \<open>
  Claim C4. The outcomes of login, in the order of the route's checks. No row with the
  submitted email: HTTP 401 "Invalid email" (the spec's UnknownUser). A row that is not
  confirmed: HTTP 401 "Email not confirmed" (EmailNotConfirmed), whatever the password
  verifier of the service would answer, so the password is not consulted. A confirmed row
  whose password does not verify: HTTP 401 "Invalid password" (BadPassword). Otherwise the
  call succeeds with an access token, a refresh token and the token type "bearer", and the
  refresh token is stored for the user. The failures leave the session as it was.
\<close>

theorem login_outcomes:
  "(get_user_by_email (form_username body) db = None \<longrightarrow>
      login svc now body db = (Inl (HTTPException 401 ''Invalid email''), db))
   \<and> (\<forall>user. get_user_by_email (form_username body) db = Some user \<longrightarrow>
        (\<not> confirmed user \<longrightarrow>
           (\<forall>v. login (svc\<lparr>verify_password := v\<rparr>) now body db
                 = (Inl (HTTPException 401 ''Email not confirmed''), db)))
      \<and> (confirmed user \<and> \<not> verify_password svc (form_password body) (password user) \<longrightarrow>
           login svc now body db = (Inl (HTTPException 401 ''Invalid password''), db))
      \<and> (confirmed user \<and> verify_password svc (form_password body) (password user) \<longrightarrow>
           login svc now body db =
             (Inr \<lparr>access_token = create_access_token svc now (email user),
                   new_refresh_token = create_refresh_token svc now (email user),
                   token_type = ''bearer''\<rparr>,
              update_token user (Some (create_refresh_token svc now (email user))) db)))"
  by (simp add: login_def Let_def)

theorem login_outcomes_witness:
  "(get_user_by_email ''email'' [deadpool] = None
    \<and> login test_service 100 \<lparr>form_username = ''email'', form_password = ''123456789''\<rparr> [deadpool]
        = (Inl (HTTPException 401 ''Invalid email''), [deadpool]))
   \<and> (\<not> confirmed (deadpool\<lparr>confirmed := False\<rparr>)
      \<and> login test_service 100 deadpool_form [deadpool\<lparr>confirmed := False\<rparr>]
          = (Inl (HTTPException 401 ''Email not confirmed''), [deadpool\<lparr>confirmed := False\<rparr>]))
   \<and> (confirmed deadpool \<and> \<not> verify_password test_service ''password'' (password deadpool)
      \<and> login test_service 100
           \<lparr>form_username = ''deadpool@example.com'', form_password = ''password''\<rparr> [deadpool]
          = (Inl (HTTPException 401 ''Invalid password''), [deadpool]))
   \<and> (confirmed deadpool \<and> verify_password test_service ''123456789'' (password deadpool)
      \<and> login test_service 100 deadpool_form [deadpool]
          = (Inr \<lparr>access_token = deadpool_access_token,
                  new_refresh_token = deadpool_refresh_token, token_type = ''bearer''\<rparr>,
             update_token deadpool (Some deadpool_refresh_token) [deadpool]))"
proof -
  have c: "confirmed deadpool" "\<not> confirmed (deadpool\<lparr>confirmed := False\<rparr>)"
    "email deadpool = ''deadpool@example.com''"
    by (simp_all add: deadpool_def)
  have v: "verify_password test_service ''123456789'' (password deadpool)"
    "\<not> verify_password test_service ''password'' (password deadpool)"
    by (simp_all add: test_service_simps deadpool_password)
  have t: "create_access_token test_service 100 ''deadpool@example.com'' = deadpool_access_token"
    "create_refresh_token test_service 100 ''deadpool@example.com'' = deadpool_refresh_token"
    by (simp_all add: test_service_simps deadpool_access_token_def deadpool_refresh_token_def)
  have 1: "login test_service 100 \<lparr>form_username = ''email'', form_password = ''123456789''\<rparr>
             [deadpool] = (Inl (HTTPException 401 ''Invalid email''), [deadpool])"
    using login_outcomes [where body = "\<lparr>form_username = ''email'', form_password = ''123456789''\<rparr>"
        and db = "[deadpool]" and svc = test_service and now = 100] deadpool_lookup
    by simp
  have 2: "login test_service 100 deadpool_form [deadpool\<lparr>confirmed := False\<rparr>]
          = (Inl (HTTPException 401 ''Email not confirmed''), [deadpool\<lparr>confirmed := False\<rparr>])"
    using login_outcomes [where body = deadpool_form and db = "[deadpool\<lparr>confirmed := False\<rparr>]"
        and svc = test_service and now = 100, THEN conjunct2, rule_format,
        of "deadpool\<lparr>confirmed := False\<rparr>", THEN conjunct1, rule_format,
        of "verify_password test_service"]
      deadpool_lookup c
    by (simp add: deadpool_form_def)
  have 3: "login test_service 100
           \<lparr>form_username = ''deadpool@example.com'', form_password = ''password''\<rparr> [deadpool]
          = (Inl (HTTPException 401 ''Invalid password''), [deadpool])"
    using login_outcomes [where body = "\<lparr>form_username = ''deadpool@example.com'', form_password = ''password''\<rparr>"
        and db = "[deadpool]" and svc = test_service and now = 100] deadpool_lookup c v
    by simp
  have 4: "login test_service 100 deadpool_form [deadpool]
          = (Inr \<lparr>access_token = deadpool_access_token,
                  new_refresh_token = deadpool_refresh_token, token_type = ''bearer''\<rparr>,
             update_token deadpool (Some deadpool_refresh_token) [deadpool])"
    using login_outcomes [where body = deadpool_form
        and db = "[deadpool]" and svc = test_service and now = 100] deadpool_lookup c v t
    by (simp add: deadpool_form_def)
  from 1 2 3 4 c v deadpool_lookup show ?thesis by simp
qed

section \<open>Signup\<close>

text \<open>
  Claim C5. A signup whose email is the email of a row of the session, confirmed or not,
  raises HTTP 409 "Account already exists" (the spec's DuplicateEmail) and leaves the
  session as it was. Every other signup appends one row, which the next lookup of the email
  finds, whose password field is the hash of the submitted password and whose confirmed
  flag is false.
\<close>

theorem signup_outcomes:
  "(\<forall>u. get_user_by_email (um_email body) db = Some u \<longrightarrow>
      signup svc gravatar now salt base_url body db
        = (Inl (HTTPException 409 ''Account already exists''), db, []))
   \<and> (get_user_by_email (um_email body) db = None \<longrightarrow>
        (\<exists>new_user.
           signup svc gravatar now salt base_url body db
             = (Inr \<lparr>resp_user = new_user,
                     resp_detail =
                       ''User successfully created. Check your email for confirmation.''\<rparr>,
                db @ [new_user],
                [SendVerificationEmail (um_email body) (um_username body) base_url])
         \<and> get_user_by_email (um_email body) (db @ [new_user]) = Some new_user
         \<and> email new_user = um_email body
         \<and> password new_user = get_password_hash svc salt (um_password body)
         \<and> \<not> confirmed new_user))"
proof (intro conjI allI impI)
  fix u assume "get_user_by_email (um_email body) db = Some u"
  then show "signup svc gravatar now salt base_url body db
        = (Inl (HTTPException 409 ''Account already exists''), db, [])"
    by (simp add: signup_def)
next
  assume none: "get_user_by_email (um_email body) db = None"
  define new_user where "new_user =
     \<lparr>user_id = next_id db, username = um_username body, email = um_email body,
      password = get_password_hash svc salt (um_password body),
      avatar = gravatar (um_email body), created_at = now,
      refresh_token = None, confirmed = False\<rparr>"
  from none have fresh: "um_email body \<notin> set (map email db)"
    by (simp add: get_user_by_email_None)
  have "signup svc gravatar now salt base_url body db
             = (Inr \<lparr>resp_user = new_user,
                     resp_detail =
                       ''User successfully created. Check your email for confirmation.''\<rparr>,
                db @ [new_user],
                [SendVerificationEmail (um_email body) (um_username body) base_url])"
    using none fresh by (simp add: signup_def create_user_def Let_def new_user_def)
  moreover have "get_user_by_email (um_email body) (db @ [new_user]) = Some new_user"
    using none by (simp add: get_user_by_email_snoc new_user_def)
  moreover have "email new_user = um_email body"
    "password new_user = get_password_hash svc salt (um_password body)"
    "\<not> confirmed new_user"
    by (simp_all add: new_user_def)
  ultimately show "\<exists>new_user.
           signup svc gravatar now salt base_url body db
             = (Inr \<lparr>resp_user = new_user,
                     resp_detail =
                       ''User successfully created. Check your email for confirmation.''\<rparr>,
                db @ [new_user],
                [SendVerificationEmail (um_email body) (um_username body) base_url])
         \<and> get_user_by_email (um_email body) (db @ [new_user]) = Some new_user
         \<and> email new_user = um_email body
         \<and> password new_user = get_password_hash svc salt (um_password body)
         \<and> \<not> confirmed new_user"
    by blast
qed

theorem signup_outcomes_witness:
  "(get_user_by_email ''deadpool@example.com'' [deadpool] = Some deadpool
    \<and> signup test_service Map.empty 50 2 ''http://testserver/''
         \<lparr>um_username = ''deadpool'', um_email = ''deadpool@example.com'',
          um_password = ''123456789''\<rparr> [deadpool]
        = (Inl (HTTPException 409 ''Account already exists''), [deadpool], []))
   \<and> (get_user_by_email ''deadpool@example.com'' [] = None
      \<and> signup test_service Map.empty 0 2 ''http://testserver/''
           \<lparr>um_username = ''deadpool'', um_email = ''deadpool@example.com'',
            um_password = ''123456789''\<rparr> []
          = (Inr \<lparr>resp_user = deadpool\<lparr>confirmed := False\<rparr>,
                  resp_detail =
                    ''User successfully created. Check your email for confirmation.''\<rparr>,
             [deadpool\<lparr>confirmed := False\<rparr>],
             [SendVerificationEmail ''deadpool@example.com'' ''deadpool'' ''http://testserver/'']))"
proof -
  let ?body = "\<lparr>um_username = ''deadpool'', um_email = ''deadpool@example.com'',
                 um_password = ''123456789''\<rparr>"
  have 1: "signup test_service Map.empty 50 2 ''http://testserver/'' ?body [deadpool]
        = (Inl (HTTPException 409 ''Account already exists''), [deadpool], [])"
    using signup_outcomes [where body = ?body and db = "[deadpool]" and svc = test_service
        and gravatar = Map.empty and now = 50 and salt = 2 and base_url = "''http://testserver/''"]
      deadpool_lookup
    by simp
  from signup_outcomes [where body = ?body and db = "[]" and svc = test_service
        and gravatar = Map.empty and now = 0 and salt = 2 and base_url = "''http://testserver/''"]
      deadpool_lookup
  obtain new_user where n: "signup test_service Map.empty 0 2 ''http://testserver/'' ?body []
             = (Inr \<lparr>resp_user = new_user,
                     resp_detail =
                       ''User successfully created. Check your email for confirmation.''\<rparr>,
                [] @ [new_user],
                [SendVerificationEmail ''deadpool@example.com'' ''deadpool'' ''http://testserver/''])"
    by auto
  have "signup test_service Map.empty 0 2 ''http://testserver/'' ?body []
          = (Inr \<lparr>resp_user = deadpool\<lparr>confirmed := False\<rparr>,
                  resp_detail =
                    ''User successfully created. Check your email for confirmation.''\<rparr>,
             [deadpool\<lparr>confirmed := False\<rparr>],
             [SendVerificationEmail ''deadpool@example.com'' ''deadpool'' ''http://testserver/''])"
    by (simp add: signup_def create_user_def Let_def deadpool_lookup next_id_def deadpool_def
          test_service_simps)
  with n 1 deadpool_lookup show ?thesis by simp
qed

section \<open>Failures of reset-password\<close>

text \<open>
  Claim C6. When the new and the confirm password differ, reset-password raises HTTP 422
  "Unprocessable Entity" (the spec's PasswordMismatch) for every token and every service,
  so before any token validation. When they are equal and the service rejects the token
  with an exception, the route's handler turns it into HTTP 500 "An unexpected error
  occurred. Report this message to support: ..." followed by the text of the exception;
  this is the one failure the route has for a token and is what the spec's interface table
  names VerificationError for this operation. Every failure of reset-password is one of
  these two.
\<close>

theorem reset_password_failures:
  "(new_password \<noteq> confirm_password \<longrightarrow>
      reset_password svc now salt tok new_password confirm_password db
        = (Inl (HTTPException 422 ''Unprocessable Entity''), db))
   \<and> (new_password = confirm_password \<and> get_email_from_token svc now tok = Inl e \<longrightarrow>
        reset_password svc now salt tok new_password confirm_password db
          = (Inl (HTTPException 500
                   (''An unexpected error occurred. Report this message to support: ''
                    @ str_exc e)), db))
   \<and> (\<forall>x. fst (reset_password svc now salt tok new_password confirm_password db) = Inl x \<longrightarrow>
          x = HTTPException 422 ''Unprocessable Entity''
        \<or> (\<exists>cause. x = HTTPException 500
                   (''An unexpected error occurred. Report this message to support: ''
                    @ str_exc cause)))"
  by (auto simp: reset_password_def reset_password_try_def split: sum.splits)

theorem reset_password_failures_witness:
  "(''ererererer'' \<noteq> ''dfgdgdfgdfgdfg''
    \<and> reset_password test_service 200 3 deadpool_mail_token ''ererererer'' ''dfgdgdfgdfgdfg''
         [deadpool]
        = (Inl (HTTPException 422 ''Unprocessable Entity''), [deadpool]))
   \<and> (get_email_from_token test_service 200 (Token ''invalid_token'' None)
        = Inl (HTTPException 422 ''Invalid token for email verification'')
      \<and> reset_password test_service 200 3 (Token ''invalid_token'' None) ''test_pass''
           ''test_pass'' [deadpool]
          = (Inl (HTTPException 500
                   (''An unexpected error occurred. Report this message to support: ''
                    @ str_exc (HTTPException 422 ''Invalid token for email verification''))),
             [deadpool]))
   \<and> (fst (reset_password test_service 200 3 deadpool_mail_token ''ererererer''
              ''dfgdgdfgdfgdfg'' [deadpool])
        = Inl (HTTPException 422 ''Unprocessable Entity''))"
proof -
  have ne: "''ererererer'' \<noteq> ''dfgdgdfgdfgdfg''" by simp
  note a = reset_password_failures [where new_password = "''ererererer''"
      and confirm_password = "''dfgdgdfgdfgdfg''" and svc = test_service and now = 200
      and salt = 3 and tok = deadpool_mail_token and db = "[deadpool]", THEN conjunct1,
      rule_format, OF ne]
  note b = reset_password_failures [where new_password = "''test_pass''"
      and confirm_password = "''test_pass''" and svc = test_service and now = 200
      and salt = 3 and tok = "Token ''invalid_token'' None" and db = "[deadpool]"
      and e = "HTTPException 422 ''Invalid token for email verification''",
      THEN conjunct2, THEN conjunct1, rule_format, OF conjI [OF refl mail_token_parses(3)]]
  from a b ne mail_token_parses(3) show ?thesis by simp
qed

section \<open>Resending the confirmation mail\<close>

text \<open>
  Claim C7 holds of the sibling route \<^verbatim>\<open>forgot_password\<close> and fails for
  \<^verbatim>\<open>verify_by_email\<close>: for an email that no row has, the route reads \<^verbatim>\<open>user.confirmed\<close>
  of \<^verbatim>\<open>None\<close> before it reaches its own test \<^verbatim>\<open>if user:\<close>, and the AttributeError escapes
  instead of the acknowledgment being returned.
\<close>

theorem verify_by_email_unknown_email:
  "verify_by_email ''http://testserver/'' ''nobody@example.com'' [deadpool]
     = (Inl (none_has_no_attribute ''confirmed''), [])
   \<and> forgot_password ''http://testserver/'' ''nobody@example.com'' [deadpool]
       = (''Check your email for reset password.'', [])"
  by (simp add: verify_by_email_def forgot_password_def deadpool_lookup)

section \<open>Confirming an email\<close>

text \<open>
  Claim C8. For a token that the service parses to an email: when no row has the email,
  confirm-email raises HTTP 400 "Verification error" (the spec's VerificationError); when
  the row is already confirmed it returns "Your email is already confirmed" and leaves the
  session as it was, so every repetition gives the same; otherwise it returns "Email
  confirmed", the row's confirmed flag is true in the session it leaves, and every later
  call with the token, while the token still parses, returns "Your email is already
  confirmed" and changes nothing.
\<close>

theorem confirmed_email_idempotent:
  assumes "get_email_from_token svc now tok = Inr e"
  shows "(get_user_by_email e db = None \<longrightarrow>
            confirmed_email svc now tok db = (Inl (HTTPException 400 ''Verification error''), db))
       \<and> (\<forall>u. get_user_by_email e db = Some u \<and> confirmed u \<longrightarrow>
            confirmed_email svc now tok db = (Inr ''Your email is already confirmed'', db))
       \<and> (\<forall>u. get_user_by_email e db = Some u \<and> \<not> confirmed u \<longrightarrow>
            (\<exists>db'. confirmed_email svc now tok db = (Inr ''Email confirmed'', db')
                 \<and> get_user_by_email e db' = Some (u\<lparr>confirmed := True\<rparr>)
                 \<and> (\<forall>now'. get_email_from_token svc now' tok = Inr e \<longrightarrow>
                       confirmed_email svc now' tok db'
                         = (Inr ''Your email is already confirmed'', db'))))"
  using assms
  by (auto simp: confirmed_email_def repository_confirmed_email_def get_user_by_email_map)

theorem confirmed_email_idempotent_witness:
  "get_email_from_token test_service 200 deadpool_mail_token = Inr ''deadpool@example.com''
   \<and> (get_user_by_email ''deadpool@example.com'' [] = None
      \<and> confirmed_email test_service 200 deadpool_mail_token []
          = (Inl (HTTPException 400 ''Verification error''), []))
   \<and> (get_user_by_email ''deadpool@example.com'' [deadpool] = Some deadpool
      \<and> confirmed deadpool
      \<and> confirmed_email test_service 200 deadpool_mail_token [deadpool]
          = (Inr ''Your email is already confirmed'', [deadpool]))
   \<and> (get_user_by_email ''deadpool@example.com'' [deadpool\<lparr>confirmed := False\<rparr>]
        = Some (deadpool\<lparr>confirmed := False\<rparr>)
      \<and> \<not> confirmed (deadpool\<lparr>confirmed := False\<rparr>)
      \<and> (\<exists>db'. confirmed_email test_service 200 deadpool_mail_token
                   [deadpool\<lparr>confirmed := False\<rparr>] = (Inr ''Email confirmed'', db')
               \<and> get_user_by_email ''deadpool@example.com'' db'
                   = Some (deadpool\<lparr>confirmed := False, confirmed := True\<rparr>)
               \<and> (get_email_from_token test_service 300 deadpool_mail_token
                     = Inr ''deadpool@example.com''
                  \<and> confirmed_email test_service 300 deadpool_mail_token db'
                      = (Inr ''Your email is already confirmed'', db'))))"
proof -
  have c: "confirmed deadpool" "\<not> confirmed (deadpool\<lparr>confirmed := False\<rparr>)"
    by (simp_all add: deadpool_def)
  note t = confirmed_email_idempotent [OF mail_token_parses(1)]
  from t [of "[]"] deadpool_lookup(3)
  have 1: "confirmed_email test_service 200 deadpool_mail_token []
          = (Inl (HTTPException 400 ''Verification error''), [])" by blast
  from t [of "[deadpool]"] deadpool_lookup(1) c(1)
  have 2: "confirmed_email test_service 200 deadpool_mail_token [deadpool]
          = (Inr ''Your email is already confirmed'', [deadpool])" by blast
  from t [of "[deadpool\<lparr>confirmed := False\<rparr>]"] deadpool_lookup(2) c(2) mail_token_parses(2)
  have 3: "\<exists>db'. confirmed_email test_service 200 deadpool_mail_token
                   [deadpool\<lparr>confirmed := False\<rparr>] = (Inr ''Email confirmed'', db')
               \<and> get_user_by_email ''deadpool@example.com'' db'
                   = Some (deadpool\<lparr>confirmed := False, confirmed := True\<rparr>)
               \<and> (get_email_from_token test_service 300 deadpool_mail_token
                     = Inr ''deadpool@example.com''
                  \<and> confirmed_email test_service 300 deadpool_mail_token db'
                      = (Inr ''Your email is already confirmed'', db'))" by blast
  from 1 2 3 c deadpool_lookup mail_token_parses(1) show ?thesis by blast
qed

section \<open>Reuse of the reset token\<close>

text \<open>
  Claim C9. The reset token is not single-use: after a reset-password call that succeeded
  with a token, a second call with the same token and matching password fields, at a time
  at which the token still parses as it did, succeeds too, whatever the new password and
  the salt.
\<close>

theorem reset_token_reusable:
  assumes first: "reset_password svc now salt tok p p db = (Inr ack, db1)"
    and still: "get_email_from_token svc now' tok = get_email_from_token svc now tok"
  shows "\<exists>db2. reset_password svc now' salt' tok q q db1 = (Inr ''Password reset successfully'', db2)"
  using assms
  by (auto simp: reset_password_def reset_password_try_def update_password_def Let_def
        get_user_by_email_map split: sum.splits option.splits)

theorem reset_token_reusable_witness:
  "reset_password test_service 200 3 deadpool_mail_token ''test_pass'' ''test_pass'' [deadpool]
     = (Inr ''Password reset successfully'',
        [deadpool\<lparr>password := hash_password 3 ''test_pass''\<rparr>])
   \<and> get_email_from_token test_service 300 deadpool_mail_token
       = get_email_from_token test_service 200 deadpool_mail_token
   \<and> (\<exists>db2. reset_password test_service 300 4 deadpool_mail_token ''another'' ''another''
                [deadpool\<lparr>password := hash_password 3 ''test_pass''\<rparr>]
              = (Inr ''Password reset successfully'', db2))"
proof -
  have a: "reset_password test_service 200 3 deadpool_mail_token ''test_pass'' ''test_pass''
             [deadpool]
     = (Inr ''Password reset successfully'',
        [deadpool\<lparr>password := hash_password 3 ''test_pass''\<rparr>])"
    by (simp add: reset_password_def reset_password_try_def mail_token_parses deadpool_lookup
          update_password_def test_service_simps(6))
  have b: "get_email_from_token test_service 300 deadpool_mail_token
       = get_email_from_token test_service 200 deadpool_mail_token"
    by (simp add: mail_token_parses)
  from reset_token_reusable [OF a b, of 4 "''another''"] a b show ?thesis by blast
qed

section \<open>Atomicity of a failed reset\<close>

text \<open>
  Claim C10. A reset-password call that fails, for mismatching fields, for a token the
  service rejects or for a token naming no user, leaves the session as it was; in
  particular the stored password hash of every row is unchanged.
\<close>

theorem reset_password_failure_atomic:
  "fst (reset_password svc now salt tok new_password confirm_password db) = Inl x \<Longrightarrow>
     snd (reset_password svc now salt tok new_password confirm_password db) = db
     \<and> map password (snd (reset_password svc now salt tok new_password confirm_password db))
         = map password db"
  by (auto simp: reset_password_def split: sum.splits if_splits)

theorem reset_password_failure_atomic_witness:
  "fst (reset_password test_service 200 3 (Token ''invalid_token'' None) ''test_pass''
          ''test_pass'' [deadpool])
     = Inl (HTTPException 500
              (''An unexpected error occurred. Report this message to support: ''
               @ str_exc (HTTPException 422 ''Invalid token for email verification'')))
   \<and> snd (reset_password test_service 200 3 (Token ''invalid_token'' None) ''test_pass''
            ''test_pass'' [deadpool]) = [deadpool]
   \<and> map password (snd (reset_password test_service 200 3 (Token ''invalid_token'' None)
                           ''test_pass'' ''test_pass'' [deadpool]))
       = map password [deadpool]"
proof -
  have f: "fst (reset_password test_service 200 3 (Token ''invalid_token'' None) ''test_pass''
          ''test_pass'' [deadpool])
     = Inl (HTTPException 500
              (''An unexpected error occurred. Report this message to support: ''
               @ str_exc (HTTPException 422 ''Invalid token for email verification'')))"
    by (simp add: reset_password_def reset_password_try_def mail_token_parses)
  from reset_password_failure_atomic [OF f] f show ?thesis by blast
qed

end
